theory Spec2Isabelle
  imports Main "HOL-Library.Word"
begin

unbundle bit_operations_syntax

section \<open>Data model of pkg/database/sorted\_set.go\<close>

text \<open>
  Byte slices are lists of 8-bit words. A \<open>float64\<close> is its IEEE-754 bit pattern, a
  64-bit word; the two comparisons the scan makes on scores are defined on the bit
  pattern below. A \<open>uint64\<close> is a 64-bit word, so \<open>i++\<close> wraps as it does in Go.
\<close>

type_synonym byte = "8 word"
type_synonym bytes = "byte list"
type_synonym uint64 = "64 word"
type_synonym float64 = "64 word"

text \<open>
  Errors are values. The two sentinels the source names are constructors of their own;
  any other error of the store is \<open>StoreErr\<close> with its text. \<open>Errorf\<close> is the error
  that \<open>fmt.Errorf\<close> builds: the format string, the value printed for \<open>%v\<close> and the
  string printed for \<open>%s\<close>. The two panics stand for the run-time panics of Go
  (an index or slice bound out of range, a nil pointer dereference): the call does not
  return a value then.
\<close>

datatype error =
    ErrNoMoreEntries
  | ErrIndexKeyMismatch
  | StoreErr string
  | Errorf string error string
  | PanicIndexOutOfRange
  | PanicNilDereference

text \<open>schema.Item, schema.ZItem, schema.RootIndex, store.KV, tbtree.ReaderSpec.\<close>

record Item =
  item_Key :: bytes
  item_Value :: bytes
  item_Index :: uint64

record ZItem =
  zitem_Item :: Item
  zitem_Score :: float64
  zitem_CurrentOffset :: bytes
  zitem_Index :: uint64

record RootIndex =
  root_Index :: uint64
  root_Root :: bytes

record KV =
  kv_Key :: bytes
  kv_Value :: bytes

record ReaderSpec =
  IsPrefix :: bool
  InitialKey :: bytes
  AscOrder :: bool

text \<open>
  schema.ZAddOptions and schema.ZScanOptions. A pointer field that may be nil is an
  option: \<open>Index\<close>, \<open>Min\<close> and \<open>Max\<close> point to a struct with one field, whose value
  the option holds. \<open>Offset\<close> is a byte slice that may be nil (\<open>None\<close>) or present,
  possibly with length zero (\<open>Some []\<close>). \<open>Score\<close> of a ZAdd request is read as
  \<open>zaddOpts.Score.Score\<close> with no test for nil: the field holds the score, which the
  specification makes a mandatory part of the request.
\<close>

record ZAddOptions =
  zadd_Set :: bytes
  zadd_Score :: float64
  zadd_Key :: bytes
  zadd_Index :: "uint64 option"

record ZScanOptions =
  zscan_Set :: bytes
  zscan_Offset :: "bytes option"
  zscan_Limit :: uint64
  zscan_Reverse :: bool
  zscan_Min :: "float64 option"
  zscan_Max :: "float64 option"

text \<open>
  One result of \<open>reader.Read()\<close>: an error, or the key, the encoded value pointer and
  the entry index. A reader is the finite sequence of the results of its successive
  reads; once the sequence is used up every further read is \<open>ErrNoMoreEntries\<close>.
\<close>

type_synonym entry = "bytes \<times> bytes \<times> uint64"
type_synonym reader = "(error + entry) list"

text \<open>
  The store \<open>d.st\<close> (embedded/store, not among the sources) is a parameter: a record of
  its methods. \<open>Snapshot\<close> gives an error or a snapshot, which is its \<open>Reader\<close> method.
  \<open>ReadValueAt\<close> takes the buffer, the offset (an \<open>int64\<close>) and the expected hash and
  gives the buffer as the call leaves it, with the error if any. \<open>ReadTx\<close> fills the
  scratch transaction \<open>d.tx\<close>, which \<open>ReadValue\<close> then reads.
\<close>

record 'tx store =
  Commit :: "KV list \<Rightarrow> error + (uint64 \<times> uint64 \<times> bytes)"
  Snapshot :: "error + (ReaderSpec \<Rightarrow> error + reader)"
  ReadValueAt :: "bytes \<Rightarrow> int \<Rightarrow> bytes \<Rightarrow> bytes \<times> error option"
  ReadTx :: "uint64 \<Rightarrow> error + 'tx"
  ReadValue :: "'tx \<Rightarrow> bytes \<Rightarrow> error + bytes"

text \<open>The receiver \<open>d\<close>: its store, and its method \<open>Get\<close>, defined elsewhere in the package.\<close>

record 'tx db =
  st :: "'tx store"
  Get :: "bytes \<Rightarrow> error + Item"

text \<open>
  The functions and the constant of package \<open>common\<close> that the source calls
  (pkg/common is not among the sources) are a parameter as well. The source takes their
  results as they come, with no error to test.
\<close>

record common =
  SortedSetSeparator :: bytes
  WrapSeparatorToSet :: "bytes \<Rightarrow> bytes"
  AppendScoreToSet :: "bytes \<Rightarrow> float64 \<Rightarrow> bytes"
  SetKeyScore :: "bytes \<Rightarrow> bytes \<Rightarrow> float64"
  BuildSetKey :: "bytes \<Rightarrow> bytes \<Rightarrow> float64 \<Rightarrow> uint64 option \<Rightarrow> bytes"
  WrapIndexReference :: "bytes \<Rightarrow> uint64 option \<Rightarrow> bytes"
  UnwrapIndexReference :: "bytes \<Rightarrow> bytes \<times> byte \<times> uint64"

section \<open>Library functions of Go that the source uses\<close>

text \<open>\<open>bytes.HasPrefix(s, prefix)\<close>.\<close>

definition HasPrefix :: "bytes \<Rightarrow> bytes \<Rightarrow> bool" where
  "HasPrefix s p = (length p \<le> length s \<and> take (length p) s = p)"

text \<open>
  \<open>binary.BigEndian.Uint32\<close> and \<open>Uint64\<close> on a slice that is long enough (the
  caller below checks the length, where Go panics).
\<close>

definition Uint32 :: "bytes \<Rightarrow> 32 word" where
  "Uint32 b = foldl (\<lambda>acc x. push_bit 8 acc OR ucast x) 0 (take 4 b)"

definition Uint64 :: "bytes \<Rightarrow> uint64" where
  "Uint64 b = foldl (\<lambda>acc x. push_bit 8 acc OR ucast x) 0 (take 8 b)"

text \<open>
  \<open>a < b\<close> on \<open>float64\<close>, on the bit patterns: false when either is a NaN, the two
  zeros are equal, otherwise sign and magnitude decide.
\<close>

definition isNaN :: "float64 \<Rightarrow> bool" where
  "isNaN a = (0x7FF0000000000000 < (a AND 0x7FFFFFFFFFFFFFFF))"

definition float64_less :: "float64 \<Rightarrow> float64 \<Rightarrow> bool" where
  "float64_less a b =
     (let ma = a AND 0x7FFFFFFFFFFFFFFF; mb = b AND 0x7FFFFFFFFFFFFFFF;
          na = (0x8000000000000000 \<le> a); nb = (0x8000000000000000 \<le> b)
      in if isNaN a \<or> isNaN b then False
         else if ma = 0 \<and> mb = 0 then False
         else if na \<and> nb then mb < ma
         else if na then True
         else if nb then False
         else ma < mb)"

section \<open>ZScan\<close>

text \<open>Lines 49 to 64: the start key, by successive overriding assignments.\<close>

definition offsetKey :: "common \<Rightarrow> ZScanOptions \<Rightarrow> bytes" where
  "offsetKey cm options =
     (let set = WrapSeparatorToSet cm (zscan_Set options);
          offsetKey0 = set;
          offsetKey1 = (case zscan_Min options of
                          Some m \<Rightarrow> if \<not> zscan_Reverse options
                                    then AppendScoreToSet cm (zscan_Set options) m else offsetKey0
                        | None \<Rightarrow> offsetKey0);
          offsetKey2 = (case zscan_Max options of
                          Some m \<Rightarrow> if zscan_Reverse options
                                    then AppendScoreToSet cm (zscan_Set options) m else offsetKey1
                        | None \<Rightarrow> offsetKey1)
      in case zscan_Offset options of
           None \<Rightarrow> offsetKey2
         | Some off \<Rightarrow> if 0 < length off then off else offsetKey2)"

text \<open>Lines 72 to 75: the reader specification handed to the snapshot.\<close>

definition readerSpec :: "common \<Rightarrow> ZScanOptions \<Rightarrow> ReaderSpec" where
  "readerSpec cm options =
     \<lparr>IsPrefix = True, InitialKey = offsetKey cm options, AscOrder = zscan_Reverse options\<rparr>"

text \<open>
  Lines 108 to 133: the reference lookup. The item stays nil (\<open>None\<close>) when the key
  does not start with the separator.
\<close>

definition resolveItem :: "common \<Rightarrow> 'tx db \<Rightarrow> bytes \<Rightarrow> bytes \<Rightarrow> error + Item option" where
  "resolveItem cm d sortedSetItemKey refVal =
     (if HasPrefix sortedSetItemKey (SortedSetSeparator cm) then
        (case UnwrapIndexReference cm refVal of
           (refKey, flag, refIndex) \<Rightarrow>
             if flag = 1 then
               (case ReadTx (st d) refIndex of
                  Inl err \<Rightarrow> Inl err
                | Inr tx \<Rightarrow>
                    (case ReadValue (st d) tx refKey of
                       Inl err \<Rightarrow> Inl err
                     | Inr val \<Rightarrow>
                         Inr (Some \<lparr>item_Key = refKey, item_Value = val, item_Index = refIndex\<rparr>)))
             else
               (case Get d refKey of
                  Inl err \<Rightarrow> Inl err
                | Inr item \<Rightarrow> Inr (Some item)))
      else Inr None)"

text \<open>
  Lines 144 to 152: the two range guards, then the append. \<open>zitem.Score\<close> on a nil
  \<open>zitem\<close> panics; \<open>&&\<close> evaluates it only when the bound is supplied.
\<close>

datatype outcome = Return error | Continue | Append "ZItem option"

definition maxGuard :: "ZScanOptions \<Rightarrow> ZItem option \<Rightarrow> outcome" where
  "maxGuard options zitem =
     (case zscan_Max options of
        None \<Rightarrow> Append zitem
      | Some mx \<Rightarrow>
          (case zitem of
             None \<Rightarrow> Return PanicNilDereference
           | Some z \<Rightarrow> if float64_less mx (zitem_Score z) then Continue else Append zitem))"

definition rangeGuard :: "ZScanOptions \<Rightarrow> ZItem option \<Rightarrow> outcome" where
  "rangeGuard options zitem =
     (case zscan_Min options of
        None \<Rightarrow> maxGuard options zitem
      | Some mn \<Rightarrow>
          (case zitem of
             None \<Rightarrow> Return PanicNilDereference
           | Some z \<Rightarrow> if float64_less (zitem_Score z) mn then Continue
                       else maxGuard options zitem))"

text \<open>
  Lines 99 to 142: the item of one entry read. The three reads of \<open>btreeVal\<close> need
  twelve bytes. The error of \<open>ReadValueAt\<close> is assigned to \<open>err\<close> and not looked at
  again. \<open>zitem\<close> stays nil when \<open>item\<close> is nil.
\<close>

definition entryItem :: "common \<Rightarrow> 'tx db \<Rightarrow> ZScanOptions \<Rightarrow> entry \<Rightarrow> error + ZItem option" where
  "entryItem cm d options e =
     (case e of (sortedSetItemKey, btreeVal, sortedSetItemIndex) \<Rightarrow>
        if length btreeVal < 12 then Inl PanicIndexOutOfRange
        else
          (let valLen = Uint32 btreeVal;
               vOff = Uint64 (drop 4 btreeVal);
               hVal = take 32 (drop 12 btreeVal @ replicate 32 0);
               (refVal, err) = ReadValueAt (st d) (replicate (unat valLen) 0) (sint vOff) hVal
           in case resolveItem cm d sortedSetItemKey refVal of
                Inl err' \<Rightarrow> Inl err'
              | Inr None \<Rightarrow> Inr None
              | Inr (Some item) \<Rightarrow>
                  Inr (Some \<lparr>zitem_Item = item,
                             zitem_Score = SetKeyScore cm sortedSetItemKey (zscan_Set options),
                             zitem_CurrentOffset = sortedSetItemKey,
                             zitem_Index = sortedSetItemIndex\<rparr>)))"

text \<open>Lines 99 to 152: the body of the loop for one entry read.\<close>

definition scanEntry :: "common \<Rightarrow> 'tx db \<Rightarrow> ZScanOptions \<Rightarrow> entry \<Rightarrow> outcome" where
  "scanEntry cm d options e =
     (case entryItem cm d options e of
        Inl err \<Rightarrow> Return err
      | Inr zitem \<Rightarrow> rangeGuard options zitem)"

text \<open>Lines 90 to 156: the loop, over the reads that remain, with \<open>items\<close> and \<open>i\<close>.\<close>

fun scanLoop ::
  "common \<Rightarrow> 'tx db \<Rightarrow> ZScanOptions \<Rightarrow> uint64 \<Rightarrow> reader \<Rightarrow> ZItem option list \<Rightarrow> uint64
     \<Rightarrow> error + ZItem option list" where
  "scanLoop cm d options limit [] items i = Inr items"
| "scanLoop cm d options limit (r # rs) items i =
     (case r of
        Inl err \<Rightarrow> if err = ErrNoMoreEntries then Inr items else Inl err
      | Inr e \<Rightarrow>
          (case scanEntry cm d options e of
             Return err \<Rightarrow> Inl err
           | Continue \<Rightarrow> scanLoop cm d options limit rs items i
           | Append zitem \<Rightarrow>
               if i + 1 = limit then Inr (items @ [zitem])
               else scanLoop cm d options limit rs (items @ [zitem]) (i + 1)))"

text \<open>Lines 84 to 88: a limit of zero becomes \<open>math.MaxUint64\<close>.\<close>

definition scanLimit :: "ZScanOptions \<Rightarrow> uint64" where
  "scanLimit options = (if zscan_Limit options = 0 then - 1 else zscan_Limit options)"

text \<open>Lines 66 to 79: the snapshot and its reader.\<close>

definition openReader :: "common \<Rightarrow> 'tx db \<Rightarrow> ZScanOptions \<Rightarrow> error + reader" where
  "openReader cm d options =
     (case Snapshot (st d) of
        Inl err \<Rightarrow> Inl err
      | Inr snapshot \<Rightarrow> snapshot (readerSpec cm options))"

definition ZScan :: "common \<Rightarrow> 'tx db \<Rightarrow> ZScanOptions \<Rightarrow> error + ZItem option list" where
  "ZScan cm d options =
     (case openReader cm d options of
        Inl err \<Rightarrow> Inl err
      | Inr reader \<Rightarrow> scanLoop cm d options (scanLimit options) reader [] 0)"

section \<open>ZAdd\<close>

text \<open>Lines 174 to 213.\<close>

definition getSortedSetKeyVal ::
  "common \<Rightarrow> 'tx db \<Rightarrow> ZAddOptions \<Rightarrow> bool \<Rightarrow> error + (bytes \<times> bytes)" where
  "getSortedSetKeyVal cm d zaddOpts skipPersistenceCheck =
     (let build = (\<lambda>key index.
            Inr (BuildSetKey cm key (zadd_Set zaddOpts) (zadd_Score zaddOpts) index,
                 WrapIndexReference cm key index))
      in case zadd_Index zaddOpts of
           Some idx \<Rightarrow>
             if \<not> skipPersistenceCheck then
               (case ReadTx (st d) idx of
                  Inl err \<Rightarrow> Inl err
                | Inr tx \<Rightarrow>
                    (case ReadValue (st d) tx (zadd_Key zaddOpts) of
                       Inl err \<Rightarrow> Inl ErrIndexKeyMismatch
                     | Inr v \<Rightarrow> build (zadd_Key zaddOpts) (Some idx)))
             else build (zadd_Key zaddOpts) (Some idx)
         | None \<Rightarrow>
             (case Get d (zadd_Key zaddOpts) of
                Inl err \<Rightarrow> Inl err
              | Inr i \<Rightarrow>
                  if item_Key i \<noteq> zadd_Key zaddOpts then Inl ErrIndexKeyMismatch
                  else build (zadd_Key zaddOpts) None))"

text \<open>Lines 19 to 37.\<close>

definition ZAdd :: "common \<Rightarrow> 'tx db \<Rightarrow> ZAddOptions \<Rightarrow> error + RootIndex" where
  "ZAdd cm d zaddOpts =
     (case getSortedSetKeyVal cm d zaddOpts False of
        Inl err \<Rightarrow> Inl err
      | Inr (ik, referenceValue) \<Rightarrow>
          (case Commit (st d) [\<lparr>kv_Key = ik, kv_Value = referenceValue\<rparr>] of
             Inl err \<Rightarrow> Inl (Errorf ''unexpected error %v during %s'' err ''Reference'')
           | Inr (id', ts, alh) \<Rightarrow> Inr \<lparr>root_Index = id', root_Root = alh\<rparr>))"

section \<open>The start position in the words of the specification\<close>

text \<open>
  Section 4.5 of the specification, cursor and start-position resolution, first match
  wins. A cursor counts as supplied when it is not empty.
\<close>

definition startPosition :: "common \<Rightarrow> ZScanOptions \<Rightarrow> bytes" where
  "startPosition cm options =
     (if zscan_Offset options \<noteq> None \<and> zscan_Offset options \<noteq> Some []
        then the (zscan_Offset options)
      else if \<not> zscan_Reverse options \<and> zscan_Min options \<noteq> None
        then AppendScoreToSet cm (zscan_Set options) (the (zscan_Min options))
      else if zscan_Reverse options \<and> zscan_Max options \<noteq> None
        then AppendScoreToSet cm (zscan_Set options) (the (zscan_Max options))
      else WrapSeparatorToSet cm (zscan_Set options))"

section \<open>The collaborators, modelled from the specification\<close>

text \<open>
  Package \<open>common\<close>, the store and its reader are code of the repository that is not
  among the sources. The general theorems below hold for every \<open>common\<close> and every
  \<open>db\<close>; the models of this section give the examples something to run on.
\<close>

text \<open>Big-endian bytes of a 64-bit and of a 32-bit word (\<open>binary.BigEndian.PutUint64\<close>).\<close>

definition be64 :: "uint64 \<Rightarrow> bytes" where
  "be64 w = map (\<lambda>n. ucast (drop_bit (8 * n) w)) [7, 6, 5, 4, 3, 2, 1, 0]"

definition be32 :: "32 word \<Rightarrow> bytes" where
  "be32 w = map (\<lambda>n. ucast (drop_bit (8 * n) w)) [3, 2, 1, 0]"

text \<open>
  Modelled from the spec: \<open>encode\<close> of the score codec, section 4.1 (pkg/common is
  missing). The bit pattern is inverted when the score is negative and has its sign bit
  flipped otherwise, then written big-endian.
\<close>

definition encode :: "float64 \<Rightarrow> bytes" where
  "encode score =
     be64 (if 0x8000000000000000 \<le> score then NOT score else score XOR 0x8000000000000000)"

text \<open>
  Modelled from the spec: \<open>decode\<close> of the score codec, section 4.1 (pkg/common is
  missing), the inverse of \<open>encode\<close>.
\<close>

definition decode :: "bytes \<Rightarrow> float64" where
  "decode b =
     (let u = Uint64 b
      in if 0x8000000000000000 \<le> u then u XOR 0x8000000000000000 else NOT u)"

text \<open>
  Modelled from the spec: \<open>prefixForSet\<close>, section 4.2 (\<open>common.WrapSeparatorToSet\<close> is
  missing). The specification does not give the bytes of the separator, which stay a
  parameter.
\<close>

definition prefixForSet :: "bytes \<Rightarrow> bytes \<Rightarrow> bytes" where
  "prefixForSet sep setName = sep @ setName"

text \<open>
  Modelled from the spec: \<open>prefixForSetAndScore\<close>, section 4.2
  (\<open>common.AppendScoreToSet\<close> is missing).
\<close>

definition prefixForSetAndScore :: "bytes \<Rightarrow> bytes \<Rightarrow> float64 \<Rightarrow> bytes" where
  "prefixForSetAndScore sep setName score = sep @ setName @ encode score"

text \<open>
  Modelled from the spec: \<open>buildKey\<close>, section 4.2 (\<open>common.BuildSetKey\<close> is missing):
  separator, set, encoded score, member key and, when pinned, the eight bytes of the
  transaction id.
\<close>

definition buildKey :: "bytes \<Rightarrow> bytes \<Rightarrow> bytes \<Rightarrow> float64 \<Rightarrow> uint64 option \<Rightarrow> bytes" where
  "buildKey sep memberKey setName score pin =
     sep @ setName @ encode score @ memberKey @ (case pin of None \<Rightarrow> [] | Some t \<Rightarrow> be64 t)"

text \<open>
  Modelled from the spec: \<open>scoreOf\<close>, section 4.2 (\<open>common.SetKeyScore\<close> is missing):
  the score field after separator and set.
\<close>

definition scoreOf :: "bytes \<Rightarrow> bytes \<Rightarrow> bytes \<Rightarrow> float64" where
  "scoreOf sep key setName = decode (take 8 (drop (length sep + length setName) key))"

text \<open>
  Modelled from the spec: \<open>wrapReference\<close>, section 4.3 (\<open>common.WrapIndexReference\<close>
  is missing): the length of the member key in eight bytes, its bytes, the flag and, when
  pinned, the eight bytes of the transaction id.
\<close>

definition wrapReference :: "bytes \<Rightarrow> uint64 option \<Rightarrow> bytes" where
  "wrapReference memberKey pin =
     be64 (of_nat (length memberKey)) @ memberKey @
       (case pin of None \<Rightarrow> [0] | Some t \<Rightarrow> 1 # be64 t)"

text \<open>
  Modelled from the spec: \<open>unwrapReference\<close>, section 4.3
  (\<open>common.UnwrapIndexReference\<close> is missing), the inverse of \<open>wrapReference\<close>.
\<close>

definition unwrapReference :: "bytes \<Rightarrow> bytes \<times> byte \<times> uint64" where
  "unwrapReference b =
     (let n = unat (Uint64 b); memberKey = take n (drop 8 b)
      in case drop (8 + n) b of
           [] \<Rightarrow> (memberKey, 0, 0)
         | flag # rest \<Rightarrow> (memberKey, flag, if flag = 1 then Uint64 rest else 0))"

text \<open>
  Modelled from the spec: package \<open>common\<close> (missing) as sections 4.1 to 4.3 describe
  it, for a given separator.
\<close>

definition specCommon :: "bytes \<Rightarrow> common" where
  "specCommon sep =
     \<lparr>SortedSetSeparator = sep,
      WrapSeparatorToSet = prefixForSet sep,
      AppendScoreToSet = prefixForSetAndScore sep,
      SetKeyScore = scoreOf sep,
      BuildSetKey = buildKey sep,
      WrapIndexReference = wrapReference,
      UnwrapIndexReference = unwrapReference\<rparr>"

text \<open>
  Modelled from the spec: the ordered reader of sections 4.5 and 6 (embedded/tbtree is
  missing), in prefix mode, the one \<open>ZScan\<close> asks for: the entries of the snapshot
  whose key extends the start key, in ascending key order when the reader specification
  asks for ascending order and in descending key order otherwise. The snapshot holds its
  entries in ascending key order. The examples use it with the bare set prefix and with
  a plain key as start key.
\<close>

definition orderedReader :: "entry list \<Rightarrow> ReaderSpec \<Rightarrow> error + reader" where
  "orderedReader entries spec =
     (let sel = filter (\<lambda>e. HasPrefix (fst e) (InitialKey spec)) entries
      in Inr (map Inr (if AscOrder spec then sel else rev sel)))"

text \<open>
  Modelled from the spec: \<open>readValueAt\<close> of the store contract, section 6
  (embedded/store is missing), over a value log from offsets to bytes: it copies the
  bytes at the offset into the buffer and compares their content hash with the expected
  one. The hash function is a parameter.
\<close>

definition readValueAt ::
  "(bytes \<Rightarrow> bytes) \<Rightarrow> (int \<times> bytes) list \<Rightarrow> bytes \<Rightarrow> int \<Rightarrow> bytes \<Rightarrow> bytes \<times> error option" where
  "readValueAt hash vlog buf off expected =
     (case map_of vlog off of
        None \<Rightarrow> (buf, Some (StoreErr ''unexpected EOF''))
      | Some v \<Rightarrow>
          (let b = take (length buf) (v @ replicate (length buf) 0)
           in (b, if hash b = expected then None else Some (StoreErr ''corrupted data''))))"

text \<open>
  Modelled from the spec: the lookups of the store contract, section 6
  (\<open>readTransaction\<close>, \<open>readValue\<close> and \<open>readCurrentValue\<close>; embedded/store and
  \<open>d.Get\<close> are missing), over an association list: they fail when the key is absent.
\<close>

definition lookup :: "('k \<times> 'v) list \<Rightarrow> 'k \<Rightarrow> error + 'v" where
  "lookup kvs k = (case map_of kvs k of None \<Rightarrow> Inl (StoreErr ''not found'') | Some v \<Rightarrow> Inr v)"

text \<open>
  Modelled from the spec: a database over the store contract of section 6
  (embedded/store is missing) with fixed contents: a reader, a hash function, a value
  log, the transactions with their written sets, the current items, and the answer of
  the next commit.
\<close>

definition memDb ::
  "(ReaderSpec \<Rightarrow> error + reader) \<Rightarrow> (bytes \<Rightarrow> bytes) \<Rightarrow> (int \<times> bytes) list
     \<Rightarrow> (uint64 \<times> (bytes \<times> bytes) list) list \<Rightarrow> (bytes \<times> Item) list
     \<Rightarrow> (error + (uint64 \<times> uint64 \<times> bytes)) \<Rightarrow> (bytes \<times> bytes) list db" where
  "memDb rd hash vlog txs current committed =
     \<lparr>st = \<lparr>Commit = (\<lambda>kvs. committed),
             Snapshot = Inr rd,
             ReadValueAt = readValueAt hash vlog,
             ReadTx = lookup txs,
             ReadValue = lookup\<rparr>,
      Get = lookup current\<rparr>"

text \<open>
  Modelled from the spec: the stored value pointer of section 4.5 (the index entries
  are written by embedded/store, which is missing): length, offset and content hash,
  as lines 99 to 103 of the source read them.
\<close>

definition valuePointer :: "(bytes \<Rightarrow> bytes) \<Rightarrow> int \<Rightarrow> bytes \<Rightarrow> bytes" where
  "valuePointer hash off v = be32 (of_nat (length v)) @ be64 (of_int off) @ hash v"

text \<open>
  A stand-in for SHA-256 in the examples: 32 bytes, the first of them the sum of the
  bytes of the content.
\<close>

definition sum32 :: "bytes \<Rightarrow> bytes" where
  "sum32 b = foldl (+) 0 b # replicate 31 0"

section \<open>Notions used to state the properties\<close>

text \<open>What one turn of the loop adds to the result.\<close>

definition emitted :: "outcome \<Rightarrow> ZItem option list" where
  "emitted out = (case out of Append zitem \<Rightarrow> [zitem] | _ \<Rightarrow> [])"


text \<open>The scores of a result, in order.\<close>

definition scores :: "error + ZItem option list \<Rightarrow> error + float64 option list" where
  "scores r = (case r of Inl err \<Rightarrow> Inl err | Inr items \<Rightarrow> Inr (map (map_option zitem_Score) items))"

text \<open>The same database with a store whose \<open>ReadValueAt\<close> fills the buffer alike and never fails.\<close>

definition ignoreReadError :: "'tx db \<Rightarrow> 'tx db" where
  "ignoreReadError d =
     d\<lparr>st := (st d)\<lparr>ReadValueAt := (\<lambda>b off h. (fst (ReadValueAt (st d) b off h), None))\<rparr>\<rparr>"

section \<open>Example data\<close>

text \<open>
  The scores 1.0, 1.5, 2.0, 2.5 and 3.0 as bit patterns; a separator, a set and five
  member keys.
\<close>

abbreviation score_1_0 :: float64 where "score_1_0 \<equiv> 0x3FF0000000000000"
abbreviation score_1_5 :: float64 where "score_1_5 \<equiv> 0x3FF8000000000000"
abbreviation score_2_0 :: float64 where "score_2_0 \<equiv> 0x4000000000000000"
abbreviation score_2_5 :: float64 where "score_2_5 \<equiv> 0x4004000000000000"
abbreviation score_3_0 :: float64 where "score_3_0 \<equiv> 0x4008000000000000"

definition exSep :: bytes where "exSep = [0x5A]"
definition exSet :: bytes where "exSet = [0x73]"
definition keyA :: bytes where "keyA = [0x61]"
definition keyB :: bytes where "keyB = [0x62]"
definition keyC :: bytes where "keyC = [0x63]"
definition keyD :: bytes where "keyD = [0x64]"
definition keyE :: bytes where "keyE = [0x65]"

definition exCommon :: common where
  "exCommon = specCommon exSep"

text \<open>
  The keys \<open>a\<close>, \<open>b\<close> and \<open>c\<close> were written by the transactions 1, 2 and 3. A lookup
  of \<open>e\<close> answers with an item under another key.
\<close>

definition exTxs :: "(uint64 \<times> (bytes \<times> bytes) list) list" where
  "exTxs = [(1, [(keyA, [1])]), (2, [(keyB, [2])]), (3, [(keyC, [3])])]"

definition exCurrent :: "(bytes \<times> Item) list" where
  "exCurrent =
     [(keyA, \<lparr>item_Key = keyA, item_Value = [1], item_Index = 1\<rparr>),
      (keyB, \<lparr>item_Key = keyB, item_Value = [2], item_Index = 2\<rparr>),
      (keyC, \<lparr>item_Key = keyC, item_Value = [3], item_Index = 3\<rparr>),
      (keyE, \<lparr>item_Key = keyE @ [0x31], item_Value = [5], item_Index = 3\<rparr>)]"

text \<open>
  The sorted-set entry of a member: its composite key, the pointer to its reference
  payload in the value log, and its index.
\<close>

definition exEntry :: "bytes \<Rightarrow> float64 \<Rightarrow> int \<Rightarrow> uint64 \<Rightarrow> entry" where
  "exEntry member score off ts =
     (buildKey exSep member exSet score None,
      valuePointer sum32 off (wrapReference member None), ts)"

text \<open>
  The set after \<open>a\<close> was added with score 3.0, \<open>b\<close> with 1.0 and \<open>c\<close> with 2.0, by
  the transactions 4, 5 and 6: the entries in ascending key order, and the value log.
\<close>

definition exEntries :: "entry list" where
  "exEntries =
     [exEntry keyB score_1_0 10 5, exEntry keyC score_2_0 20 6, exEntry keyA score_3_0 0 4]"

definition exValues :: "(int \<times> bytes) list" where
  "exValues =
     [(0, wrapReference keyA None), (10, wrapReference keyB None), (20, wrapReference keyC None)]"

definition exDb ::
  "(ReaderSpec \<Rightarrow> error + reader) \<Rightarrow> (int \<times> bytes) list
     \<Rightarrow> (error + (uint64 \<times> uint64 \<times> bytes)) \<Rightarrow> (bytes \<times> bytes) list db" where
  "exDb rd vlog committed = memDb rd sum32 vlog exTxs exCurrent committed"

definition exCommitted :: "error + (uint64 \<times> uint64 \<times> bytes)" where
  "exCommitted = Inr (7, 0, replicate 32 0)"

text \<open>The store behind its ordered reader.\<close>

definition exOrdered :: "(bytes \<times> bytes) list db" where
  "exOrdered = exDb (orderedReader exEntries) exValues exCommitted"

text \<open>The store behind a reader that delivers the three entries of the set, whatever the start key.\<close>

definition exDelivered :: "(bytes \<times> bytes) list db" where
  "exDelivered = exDb (\<lambda>spec. Inr (map Inr exEntries)) exValues exCommitted"

text \<open>
  The store with the plain entry of key \<open>a\<close> in the same key space as the sorted set:
  its key does not start with the separator, and its value is at offset 30.
\<close>

definition exPlain :: "(bytes \<times> bytes) list db" where
  "exPlain =
     exDb (orderedReader (exEntries @ [(keyA, valuePointer sum32 30 [1], 1)]))
       (exValues @ [(30, [1])]) exCommitted"

text \<open>
  The store with one entry, that of \<open>b\<close>, whose reference payload in the value log was
  overwritten with a reference to \<open>c\<close>: the content hash of the pointer does not match.
\<close>

definition exCorrupt :: "(bytes \<times> bytes) list db" where
  "exCorrupt =
     exDb (orderedReader [exEntry keyB score_1_0 10 5]) [(10, wrapReference keyC None)] exCommitted"

text \<open>The store whose commit fails.\<close>

definition exFailing :: "(bytes \<times> bytes) list db" where
  "exFailing = exDb (orderedReader exEntries) exValues (Inl (StoreErr ''disk full''))"

definition exScan :: ZScanOptions where
  "exScan =
     \<lparr>zscan_Set = exSet, zscan_Offset = None, zscan_Limit = 0, zscan_Reverse = False,
      zscan_Min = None, zscan_Max = None\<rparr>"

definition exAdd :: "bytes \<Rightarrow> uint64 option \<Rightarrow> ZAddOptions" where
  "exAdd member pin =
     \<lparr>zadd_Set = exSet, zadd_Score = score_2_5, zadd_Key = member, zadd_Index = pin\<rparr>"

text \<open>The scan between 1.5 and 2.5, the scan limited to two items.\<close>

definition exRange :: ZScanOptions where
  "exRange = exScan\<lparr>zscan_Min := Some score_1_5, zscan_Max := Some score_2_5\<rparr>"

definition exTwo :: ZScanOptions where
  "exTwo = exScan\<lparr>zscan_Limit := 2\<rparr>"

text \<open>The result item of a member of the set.\<close>

definition exZItem :: "bytes \<Rightarrow> bytes \<Rightarrow> uint64 \<Rightarrow> float64 \<Rightarrow> uint64 \<Rightarrow> ZItem" where
  "exZItem member val t score ts =
     \<lparr>zitem_Item = \<lparr>item_Key = member, item_Value = val, item_Index = t\<rparr>,
      zitem_Score = score,
      zitem_CurrentOffset = buildKey exSep member exSet score None,
      zitem_Index = ts\<rparr>"

lemmas collaborator_defs =
  specCommon_def memDb_def orderedReader_def readValueAt_def lookup_def valuePointer_def
  sum32_def buildKey_def wrapReference_def unwrapReference_def scoreOf_def prefixForSet_def
  prefixForSetAndScore_def encode_def decode_def be64_def be32_def

lemmas example_defs =
  exSep_def exSet_def keyA_def keyB_def keyC_def keyD_def keyE_def exCommon_def exTxs_def
  exCurrent_def exEntry_def exEntries_def exValues_def exDb_def exCommitted_def exOrdered_def
  exDelivered_def exPlain_def exCorrupt_def exFailing_def exScan_def exAdd_def

lemmas scan_defs =
  ZScan_def openReader_def readerSpec_def offsetKey_def scanLimit_def scanEntry_def
  entryItem_def resolveItem_def
  rangeGuard_def maxGuard_def float64_less_def isNaN_def HasPrefix_def Uint32_def Uint64_def
  scores_def

lemmas add_defs = ZAdd_def getSortedSetKeyVal_def

lemmas ex_defs = example_defs exRange_def exTwo_def exZItem_def

section \<open>The loop: general facts\<close>

text \<open>The cursor is read only when the start key is computed.\<close>

lemma rangeGuard_Offset:
  "rangeGuard (options\<lparr>zscan_Offset := x\<rparr>) zitem = rangeGuard options zitem"
  by (simp add: rangeGuard_def maxGuard_def split: option.splits)

lemma entryItem_Offset:
  "entryItem cm d (options\<lparr>zscan_Offset := x\<rparr>) e = entryItem cm d options e"
  by (cases e)
     (simp add: entryItem_def Let_def split: prod.splits sum.splits option.splits)

lemma scanEntry_Offset:
  "scanEntry cm d (options\<lparr>zscan_Offset := x\<rparr>) e = scanEntry cm d options e"
  by (simp add: scanEntry_def entryItem_Offset rangeGuard_Offset split: sum.splits)

lemma scanLoop_Offset:
  "scanLoop cm d (options\<lparr>zscan_Offset := x\<rparr>) limit rs items i =
     scanLoop cm d options limit rs items i"
proof (induction rs arbitrary: items i)
  case Nil
  show ?case by simp
next
  case (Cons r rs)
  show ?case
    by (cases r) (simp_all add: scanEntry_Offset Cons.IH split: outcome.splits)
qed





text \<open>The counter \<open>i\<close> is the number of items and stays below the limit.\<close>

lemma unat_succ_below:
  fixes i limit :: uint64
  assumes "unat i < unat limit"
  shows "unat (i + 1) = unat i + 1"
proof -
  have "unat limit < 2 ^ 64" using unsigned_less[of limit] by simp
  with assms have "unat i + 1 < 2 ^ 64" by simp
  then show ?thesis by (simp add: unat_word_ariths)
qed

lemma scanLoop_at_most_limit:
  assumes "scanLoop cm d options limit rs items i = Inr res"
    and "unat i = length items"
    and "length items < unat limit"
  shows "length res \<le> unat limit"
  using assms
proof (induction rs arbitrary: items i)
  case Nil
  then show ?case by simp
next
  case (Cons r rs)
  show ?case
  proof (cases r)
    case (Inl err)
    with Cons.prems show ?thesis by (auto split: if_splits)
  next
    case (Inr e)
    show ?thesis
    proof (cases "scanEntry cm d options e")
      case (Return err)
      with Inr Cons.prems show ?thesis by simp
    next
      case Continue
      with Inr Cons.prems Cons.IH show ?thesis by simp
    next
      case (Append zitem)
      have succ: "unat (i + 1) = length (items @ [zitem])"
        using unat_succ_below[of i limit] Cons.prems(2,3) by simp
      show ?thesis
      proof (cases "i + 1 = limit")
        case True
        with Inr Append Cons.prems(1) have "res = items @ [zitem]" by simp
        with Cons.prems(3) show ?thesis by simp
      next
        case False
        then have "unat (i + 1) \<noteq> unat limit" by (simp add: word_unat_eq_iff)
        with succ Cons.prems(3) have below: "length (items @ [zitem]) < unat limit" by simp
        from False Inr Append Cons.prems(1)
        have "scanLoop cm d options limit rs (items @ [zitem]) (i + 1) = Inr res" by simp
        from Cons.IH[OF this succ below] show ?thesis .
      qed
    qed
  qed
qed

lemma scanLoop_stops_at_limit:
  assumes "scanLoop cm d options limit rs items i = Inr res"
    and "length res = unat limit"
    and "unat i = length items"
    and "length items < unat limit"
  shows "scanLoop cm d options limit (rs @ rest) items i = Inr res"
  using assms
proof (induction rs arbitrary: items i)
  case Nil
  then show ?case by simp
next
  case (Cons r rs)
  show ?case
  proof (cases r)
    case (Inl err)
    with Cons.prems show ?thesis by (auto split: if_splits)
  next
    case (Inr e)
    show ?thesis
    proof (cases "scanEntry cm d options e")
      case (Return err)
      with Inr Cons.prems show ?thesis by simp
    next
      case Continue
      with Inr Cons.prems Cons.IH show ?thesis by simp
    next
      case (Append zitem)
      have succ: "unat (i + 1) = length (items @ [zitem])"
        using unat_succ_below[of i limit] Cons.prems(3,4) by simp
      show ?thesis
      proof (cases "i + 1 = limit")
        case True
        with Inr Append Cons.prems(1) show ?thesis by simp
      next
        case False
        then have "unat (i + 1) \<noteq> unat limit" by (simp add: word_unat_eq_iff)
        with succ Cons.prems(4) have below: "length (items @ [zitem]) < unat limit" by simp
        from False Inr Append Cons.prems(1)
        have "scanLoop cm d options limit rs (items @ [zitem]) (i + 1) = Inr res" by simp
        from Cons.IH[OF this Cons.prems(2) succ below] False Inr Append show ?thesis by simp
      qed
    qed
  qed
qed

lemma scanLoop_unbounded:
  assumes "unat i + length es < 2 ^ 64 - 1"
    and "\<And>e err. e \<in> set es \<Longrightarrow> scanEntry cm d options e \<noteq> Return err"
    and "tail = [] \<or> (\<exists>rest. tail = Inl ErrNoMoreEntries # rest)"
  shows "scanLoop cm d options (- 1) (map Inr es @ tail) items i =
           Inr (items @ concat (map (\<lambda>e. emitted (scanEntry cm d options e)) es))"
  using assms(1,2)
proof (induction es arbitrary: items i)
  case Nil
  from assms(3) show ?case by auto
next
  case (Cons e es)
  have notret: "\<And>err. scanEntry cm d options e \<noteq> Return err"
    using Cons.prems(2)[of e] by simp
  have rest: "\<And>e' err. e' \<in> set es \<Longrightarrow> scanEntry cm d options e' \<noteq> Return err"
    using Cons.prems(2) by simp
  show ?case
  proof (cases "scanEntry cm d options e")
    case (Return err)
    with notret[of err] show ?thesis by simp
  next
    case Continue
    from Cons.prems(1) have "unat i + length es < 2 ^ 64 - 1" by simp
    from Cons.IH[OF this rest] Continue show ?thesis by (simp add: emitted_def)
  next
    case (Append zitem)
    have max: "unat (- 1 :: uint64) = 2 ^ 64 - 1"
      by (simp add: unsigned_minus_1_eq_mask mask_eq_exp_minus_1)
    from Cons.prems(1) have lt: "unat i < unat (- 1 :: uint64)" unfolding max by simp
    have succ: "unat (i + 1) = unat i + 1" by (rule unat_succ_below[OF lt])
    with Cons.prems(1) have "unat (i + 1) \<noteq> unat (- 1 :: uint64)" unfolding max by simp
    then have ne: "i + 1 \<noteq> - 1" by (rule contrapos_nn) (simp only:)
    from succ Cons.prems(1) have "unat (i + 1) + length es < 2 ^ 64 - 1" by simp
    from Cons.IH[OF this rest] Append ne show ?thesis by (simp add: emitted_def)
  qed
qed

text \<open>The error of \<open>ReadValueAt\<close> has no part in the result.\<close>

lemma entryItem_ignoreReadError:
  "entryItem cm (ignoreReadError d) options e = entryItem cm d options e"
  by (cases e)
     (simp add: entryItem_def resolveItem_def ignoreReadError_def Let_def
        split: prod.splits sum.splits option.splits)

lemma scanLoop_ignoreReadError:
  "scanLoop cm (ignoreReadError d) options limit rs items i = scanLoop cm d options limit rs items i"
proof (induction rs arbitrary: items i)
  case Nil
  show ?case by simp
next
  case (Cons r rs)
  show ?case
    by (cases r)
       (simp_all add: scanEntry_def entryItem_ignoreReadError Cons.IH split: outcome.splits sum.splits)
qed

section \<open>The examples, evaluated\<close>

lemma exOutcomes:
  "scanEntry exCommon exDelivered exScan (exEntry keyB score_1_0 10 5) = Append (Some (exZItem keyB [2] 2 score_1_0 5))"
  "scanEntry exCommon exDelivered exScan (exEntry keyC score_2_0 20 6) = Append (Some (exZItem keyC [3] 3 score_2_0 6))"
  "scanEntry exCommon exDelivered exScan (exEntry keyA score_3_0 0 4) = Append (Some (exZItem keyA [1] 1 score_3_0 4))"
  by (simp_all add: ex_defs collaborator_defs scan_defs)

lemma exReader:
  "openReader exCommon exDelivered options = Inr (map Inr exEntries)"
  by (simp add: openReader_def exDelivered_def exDb_def memDb_def)

lemma exTwo_loop:
  "scanLoop exCommon exDelivered exTwo 2
     [Inr (exEntry keyB score_1_0 10 5), Inr (exEntry keyC score_2_0 20 6)] [] 0
   = Inr [Some (exZItem keyB [2] 2 score_1_0 5), Some (exZItem keyC [3] 3 score_2_0 6)]"
  by (simp add: ex_defs exTwo_def collaborator_defs scan_defs)

lemma exTwo_scan:
  "ZScan exCommon exDelivered exTwo
   = Inr [Some (exZItem keyB [2] 2 score_1_0 5), Some (exZItem keyC [3] 3 score_2_0 6)]"
  by (simp add: ex_defs exTwo_def collaborator_defs scan_defs)




text \<open>The error that \<open>fmt.Errorf\<close> builds around an error is another error.\<close>

lemma Errorf_neq: "Errorf f e s \<noteq> e"
  by (induction e arbitrary: f s) auto

section \<open>The start position\<close>

text \<open>
  Claim C5. For every ZScan call the start key handed to the reader is chosen with
  first-match-wins precedence: a supplied (non-empty) cursor, verbatim; else, when the
  scan is not reversed and a minimum is supplied, the set with the encoded minimum; else,
  when the scan is reversed and a maximum is supplied, the set with the encoded maximum;
  else the bare set prefix. The successive assignments of the source compute the
  first-match-wins choice of the specification.
\<close>

theorem ZScan_start_position:
  "offsetKey cm options = startPosition cm options
   \<and> InitialKey (readerSpec cm options) = startPosition cm options"
  by (cases "zscan_Offset options"; cases "zscan_Min options"; cases "zscan_Max options")
     (auto simp: readerSpec_def offsetKey_def startPosition_def Let_def)

text \<open>
  Claim C10. A cursor that is present with length zero is treated as absent: the start
  key, and the whole scan, are those of the same call without a cursor. Only a cursor
  that is not empty takes precedence, and is then the start key whatever the bounds.
\<close>

theorem ZScan_empty_cursor:
  "(zscan_Offset options = Some [] \<longrightarrow>
      offsetKey cm options = offsetKey cm (options\<lparr>zscan_Offset := None\<rparr>)
      \<and> ZScan cm d options = ZScan cm d (options\<lparr>zscan_Offset := None\<rparr>))
   \<and> (\<forall>c. zscan_Offset options = Some c \<and> c \<noteq> [] \<longrightarrow> offsetKey cm options = c)"
proof (intro conjI impI allI)
  assume empty: "zscan_Offset options = Some []"
  then show key: "offsetKey cm options = offsetKey cm (options\<lparr>zscan_Offset := None\<rparr>)"
    by (simp add: offsetKey_def Let_def split: option.splits)
  then have "readerSpec cm options = readerSpec cm (options\<lparr>zscan_Offset := None\<rparr>)"
    by (simp add: readerSpec_def)
  then have "openReader cm d options = openReader cm d (options\<lparr>zscan_Offset := None\<rparr>)"
    by (simp add: openReader_def split: sum.splits)
  moreover have "scanLimit (options\<lparr>zscan_Offset := None\<rparr>) = scanLimit options"
    by (simp add: scanLimit_def)
  ultimately show "ZScan cm d options = ZScan cm d (options\<lparr>zscan_Offset := None\<rparr>)"
    by (simp add: ZScan_def scanLoop_Offset split: sum.splits)
next
  fix c assume "zscan_Offset options = Some c \<and> c \<noteq> []"
  then show "offsetKey cm options = c"
    by (simp add: offsetKey_def)
qed

text \<open>
  The claim at an empty cursor with a minimum supplied (the start key is the set with
  the encoded minimum) and at the cursor \<open>a\<close> with the same minimum.
\<close>

theorem ZScan_empty_cursor_witness:
  "zscan_Offset (exScan\<lparr>zscan_Offset := Some [], zscan_Min := Some score_1_5\<rparr>) = Some []
   \<and> offsetKey exCommon (exScan\<lparr>zscan_Offset := Some [], zscan_Min := Some score_1_5\<rparr>)
       = prefixForSetAndScore exSep exSet score_1_5
   \<and> ZScan exCommon exOrdered (exScan\<lparr>zscan_Offset := Some [], zscan_Min := Some score_1_5\<rparr>)
       = ZScan exCommon exOrdered (exScan\<lparr>zscan_Offset := None, zscan_Min := Some score_1_5\<rparr>)
   \<and> offsetKey exCommon (exScan\<lparr>zscan_Offset := Some keyA, zscan_Min := Some score_1_5\<rparr>) = keyA"
  using ZScan_empty_cursor[of "exScan\<lparr>zscan_Offset := Some [], zscan_Min := Some score_1_5\<rparr>" exCommon exOrdered]
    ZScan_empty_cursor[of "exScan\<lparr>zscan_Offset := Some keyA, zscan_Min := Some score_1_5\<rparr>" exCommon exOrdered]
  by (simp add: exScan_def keyA_def offsetKey_def exCommon_def specCommon_def)

section \<open>ZAdd: the commit\<close>

text \<open>
  Claim C9 says that ZAdd hands a commit error of the store on unchanged. It does not:
  on the store whose commit fails with \<open>disk full\<close>, the valid unpinned addition of
  \<open>a\<close> does not return that error.
\<close>

theorem ZAdd_commit_error_counterexample:
  "Commit (st exFailing)
      [\<lparr>kv_Key = buildKey exSep keyA exSet score_2_5 None, kv_Value = wrapReference keyA None\<rparr>]
     = Inl (StoreErr ''disk full'')
   \<and> getSortedSetKeyVal exCommon exFailing (exAdd keyA None) False
     = Inr (buildKey exSep keyA exSet score_2_5 None, wrapReference keyA None)
   \<and> ZAdd exCommon exFailing (exAdd keyA None) \<noteq> Inl (StoreErr ''disk full'')"
  by (simp add: add_defs example_defs specCommon_def memDb_def lookup_def)

text \<open>
  Claim C9, amended. When validation passes and the store's commit of the entry fails,
  ZAdd returns the error that \<open>fmt.Errorf\<close> builds from the format
  \<open>unexpected error %v during %s\<close>, the store's error and \<open>Reference\<close>; this is
  never the store's error itself.
\<close>

theorem ZAdd_commit_error:
  assumes "getSortedSetKeyVal cm d zaddOpts False = Inr (ik, referenceValue)"
    and "Commit (st d) [\<lparr>kv_Key = ik, kv_Value = referenceValue\<rparr>] = Inl err"
  shows "ZAdd cm d zaddOpts = Inl (Errorf ''unexpected error %v during %s'' err ''Reference'')
    \<and> ZAdd cm d zaddOpts \<noteq> Inl err"
  using assms by (simp add: ZAdd_def Errorf_neq)

text \<open>The amended claim on the store whose commit fails with \<open>disk full\<close>.\<close>

theorem ZAdd_commit_error_witness:
  "getSortedSetKeyVal exCommon exFailing (exAdd keyA None) False
     = Inr (buildKey exSep keyA exSet score_2_5 None, wrapReference keyA None)
   \<and> Commit (st exFailing)
      [\<lparr>kv_Key = buildKey exSep keyA exSet score_2_5 None, kv_Value = wrapReference keyA None\<rparr>]
     = Inl (StoreErr ''disk full'')
   \<and> ZAdd exCommon exFailing (exAdd keyA None)
     = Inl (Errorf ''unexpected error %v during %s'' (StoreErr ''disk full'') ''Reference'')"
proof -
  have a: "getSortedSetKeyVal exCommon exFailing (exAdd keyA None) False
     = Inr (buildKey exSep keyA exSet score_2_5 None, wrapReference keyA None)"
    by (simp add: add_defs example_defs specCommon_def memDb_def lookup_def)
  have b: "Commit (st exFailing)
      [\<lparr>kv_Key = buildKey exSep keyA exSet score_2_5 None, kv_Value = wrapReference keyA None\<rparr>]
     = Inl (StoreErr ''disk full'')"
    by (simp add: example_defs memDb_def)
  from ZAdd_commit_error[OF a b] a b show ?thesis by simp
qed

section \<open>ZAdd: the validation and the reference payload\<close>




text \<open>
  Claim C6. A successful ZAdd is a successful commit of one entry whose value is the
  reference payload built from the member key and the pin of the request as it stands:
  the pinned transaction id when one is supplied, and no pin when none is supplied,
  whatever transaction id the validation lookup has returned.
\<close>

theorem ZAdd_reference_payload:
  assumes "ZAdd cm d zaddOpts = Inr root"
  shows "\<exists>ts. Commit (st d)
           [\<lparr>kv_Key = BuildSetKey cm (zadd_Key zaddOpts) (zadd_Set zaddOpts)
                        (zadd_Score zaddOpts) (zadd_Index zaddOpts),
             kv_Value = WrapIndexReference cm (zadd_Key zaddOpts) (zadd_Index zaddOpts)\<rparr>]
         = Inr (root_Index root, ts, root_Root root)"
  using assms
  by (auto simp: ZAdd_def getSortedSetKeyVal_def split: option.splits sum.splits if_splits prod.splits)

text \<open>
  The pinned and the unpinned addition of \<open>a\<close>: the payload ends with the flag 1 and
  the transaction id 1 in the first case and with the flag 0 in the second, although the
  lookup of \<open>a\<close> has returned the transaction id 1.
\<close>

theorem ZAdd_reference_payload_witness:
  "ZAdd exCommon exOrdered (exAdd keyA (Some 1)) = Inr \<lparr>root_Index = 7, root_Root = replicate 32 0\<rparr>
   \<and> ZAdd exCommon exOrdered (exAdd keyA None) = Inr \<lparr>root_Index = 7, root_Root = replicate 32 0\<rparr>
   \<and> Get exOrdered keyA = Inr \<lparr>item_Key = keyA, item_Value = [1], item_Index = 1\<rparr>
   \<and> WrapIndexReference exCommon keyA (Some 1) = [0, 0, 0, 0, 0, 0, 0, 1, 0x61, 1, 0, 0, 0, 0, 0, 0, 0, 1]
   \<and> WrapIndexReference exCommon keyA None = [0, 0, 0, 0, 0, 0, 0, 1, 0x61, 0]
   \<and> (\<exists>ts. Commit (st exOrdered)
           [\<lparr>kv_Key = BuildSetKey exCommon keyA exSet score_2_5 (Some 1),
             kv_Value = WrapIndexReference exCommon keyA (Some 1)\<rparr>] = Inr (7, ts, replicate 32 0))
   \<and> (\<exists>ts. Commit (st exOrdered)
           [\<lparr>kv_Key = BuildSetKey exCommon keyA exSet score_2_5 None,
             kv_Value = WrapIndexReference exCommon keyA None\<rparr>] = Inr (7, ts, replicate 32 0))"
proof -
  have pinned: "ZAdd exCommon exOrdered (exAdd keyA (Some 1)) = Inr \<lparr>root_Index = 7, root_Root = replicate 32 0\<rparr>"
    and unpinned: "ZAdd exCommon exOrdered (exAdd keyA None) = Inr \<lparr>root_Index = 7, root_Root = replicate 32 0\<rparr>"
    and getA: "Get exOrdered keyA = Inr \<lparr>item_Key = keyA, item_Value = [1], item_Index = 1\<rparr>"
    by (simp_all add: add_defs example_defs specCommon_def memDb_def lookup_def)
  have wrap1: "WrapIndexReference exCommon keyA (Some 1) = [0, 0, 0, 0, 0, 0, 0, 1, 0x61, 1, 0, 0, 0, 0, 0, 0, 0, 1]"
    and wrap0: "WrapIndexReference exCommon keyA None = [0, 0, 0, 0, 0, 0, 0, 1, 0x61, 0]"
    by (simp_all add: exCommon_def specCommon_def wrapReference_def be64_def keyA_def)
  from ZAdd_reference_payload[OF pinned] ZAdd_reference_payload[OF unpinned]
    pinned unpinned getA wrap1 wrap0
  show ?thesis by (simp add: exAdd_def)
qed

section \<open>ZScan: the range guard and the limit\<close>



text \<open>
  Claim C8. With a limit \<open>L > 0\<close> a result has at most \<open>L\<close> items, and the scan
  stops at the \<open>L\<close>-th: when the first reads alone give \<open>L\<close> items, that is the
  result whatever the reader would deliver next. With the limit 0 every entry is
  processed until the reader reports the end of the sequence, by running out or by
  \<open>ErrNoMoreEntries\<close>, and the scan then succeeds with all the items appended (for
  fewer than \<open>2^64 - 1\<close> entries, the value the limit 0 stands for).
\<close>

theorem ZScan_limit:
  "(\<forall>res. zscan_Limit options \<noteq> 0 \<and> ZScan cm d options = Inr res
       \<longrightarrow> length res \<le> unat (zscan_Limit options))
   \<and> (\<forall>rs rest res. zscan_Limit options \<noteq> 0 \<and> openReader cm d options = Inr (rs @ rest)
         \<and> scanLoop cm d options (zscan_Limit options) rs [] 0 = Inr res
         \<and> length res = unat (zscan_Limit options)
       \<longrightarrow> ZScan cm d options = Inr res)
   \<and> (\<forall>es tail. zscan_Limit options = 0 \<and> openReader cm d options = Inr (map Inr es @ tail)
         \<and> (tail = [] \<or> (\<exists>rest. tail = Inl ErrNoMoreEntries # rest))
         \<and> (\<forall>e err. e \<in> set es \<longrightarrow> scanEntry cm d options e \<noteq> Return err)
         \<and> length es < 2 ^ 64 - 1
       \<longrightarrow> ZScan cm d options = Inr (concat (map (\<lambda>e. emitted (scanEntry cm d options e)) es)))"
proof (intro conjI allI impI)
  fix res
  assume a: "zscan_Limit options \<noteq> 0 \<and> ZScan cm d options = Inr res"
  then obtain rd where loop: "scanLoop cm d options (zscan_Limit options) rd [] 0 = Inr res"
    by (auto simp: ZScan_def scanLimit_def split: sum.splits)
  from a have "0 < unat (zscan_Limit options)" by (simp add: unat_gt_0)
  with scanLoop_at_most_limit[OF loop] show "length res \<le> unat (zscan_Limit options)" by simp
next
  fix rs rest res
  assume a: "zscan_Limit options \<noteq> 0 \<and> openReader cm d options = Inr (rs @ rest)
         \<and> scanLoop cm d options (zscan_Limit options) rs [] 0 = Inr res
         \<and> length res = unat (zscan_Limit options)"
  then have "0 < unat (zscan_Limit options)" by (simp add: unat_gt_0)
  with a have "scanLoop cm d options (zscan_Limit options) (rs @ rest) [] 0 = Inr res"
    using scanLoop_stops_at_limit[of cm d options "zscan_Limit options" rs "[]" 0 res rest] by simp
  with a show "ZScan cm d options = Inr res"
    by (simp add: ZScan_def scanLimit_def)
next
  fix es tail
  assume a: "zscan_Limit options = 0 \<and> openReader cm d options = Inr (map Inr es @ tail)
         \<and> (tail = [] \<or> (\<exists>rest. tail = Inl ErrNoMoreEntries # rest))
         \<and> (\<forall>e err. e \<in> set es \<longrightarrow> scanEntry cm d options e \<noteq> Return err)
         \<and> length es < 2 ^ 64 - 1"
  have "scanLoop cm d options (- 1) (map Inr es @ tail) [] 0 =
           Inr ([] @ concat (map (\<lambda>e. emitted (scanEntry cm d options e)) es))"
  proof (rule scanLoop_unbounded)
    show "unat (0 :: uint64) + length es < 2 ^ 64 - 1" using a by simp
    show "\<And>e err. e \<in> set es \<Longrightarrow> scanEntry cm d options e \<noteq> Return err" using a by blast
    show "tail = [] \<or> (\<exists>rest. tail = Inl ErrNoMoreEntries # rest)" using a by blast
  qed
  with a show "ZScan cm d options = Inr (concat (map (\<lambda>e. emitted (scanEntry cm d options e)) es))"
    by (simp add: ZScan_def scanLimit_def)
qed

text \<open>
  The limit 2 and the limit 0 on the three entries: two items, from the first two
  reads, and all three items.
\<close>

theorem ZScan_limit_witness:
  "zscan_Limit exTwo = 2
   \<and> ZScan exCommon exDelivered exTwo
       = Inr [Some (exZItem keyB [2] 2 score_1_0 5), Some (exZItem keyC [3] 3 score_2_0 6)]
   \<and> length [Some (exZItem keyB [2] 2 score_1_0 5), Some (exZItem keyC [3] 3 score_2_0 6)]
       \<le> unat (zscan_Limit exTwo)
   \<and> openReader exCommon exDelivered exTwo
       = Inr ([Inr (exEntry keyB score_1_0 10 5), Inr (exEntry keyC score_2_0 20 6)]
              @ [Inr (exEntry keyA score_3_0 0 4)])
   \<and> scanLoop exCommon exDelivered exTwo (zscan_Limit exTwo)
        [Inr (exEntry keyB score_1_0 10 5), Inr (exEntry keyC score_2_0 20 6)] [] 0
       = Inr [Some (exZItem keyB [2] 2 score_1_0 5), Some (exZItem keyC [3] 3 score_2_0 6)]
   \<and> zscan_Limit exScan = 0
   \<and> openReader exCommon exDelivered exScan = Inr (map Inr exEntries @ [])
   \<and> ZScan exCommon exDelivered exScan
       = Inr [Some (exZItem keyB [2] 2 score_1_0 5), Some (exZItem keyC [3] 3 score_2_0 6),
              Some (exZItem keyA [1] 1 score_3_0 4)]"
proof -
  have two: "zscan_Limit exTwo = 2" and zero: "zscan_Limit exScan = 0"
    by (simp_all add: exTwo_def exScan_def)
  have split: "map Inr exEntries
       = [Inr (exEntry keyB score_1_0 10 5), Inr (exEntry keyC score_2_0 20 6)]
              @ [Inr (exEntry keyA score_3_0 0 4)]"
    by (simp add: exEntries_def)
  have noret: "\<forall>e err. e \<in> set exEntries \<longrightarrow> scanEntry exCommon exDelivered exScan e \<noteq> Return err"
    using exOutcomes by (auto simp: exEntries_def)
  have a: "length [Some (exZItem keyB [2] 2 score_1_0 5), Some (exZItem keyC [3] 3 score_2_0 6)]
       \<le> unat (zscan_Limit exTwo)"
    using ZScan_limit[where options = exTwo and cm = exCommon and d = exDelivered,
        THEN conjunct1, rule_format,
        of "[Some (exZItem keyB [2] 2 score_1_0 5), Some (exZItem keyC [3] 3 score_2_0 6)]"]
      two exTwo_scan by simp
  have b: "ZScan exCommon exDelivered exTwo
       = Inr [Some (exZItem keyB [2] 2 score_1_0 5), Some (exZItem keyC [3] 3 score_2_0 6)]"
    using ZScan_limit[where options = exTwo and cm = exCommon and d = exDelivered,
        THEN conjunct2, THEN conjunct1, rule_format,
        of "[Inr (exEntry keyB score_1_0 10 5), Inr (exEntry keyC score_2_0 20 6)]"
           "[Inr (exEntry keyA score_3_0 0 4)]"
           "[Some (exZItem keyB [2] 2 score_1_0 5), Some (exZItem keyC [3] 3 score_2_0 6)]"]
      two exTwo_loop exReader[of exTwo] split by simp
  have c: "ZScan exCommon exDelivered exScan
       = Inr (concat (map (\<lambda>e. emitted (scanEntry exCommon exDelivered exScan e)) exEntries))"
    using ZScan_limit[where options = exScan and cm = exCommon and d = exDelivered,
        THEN conjunct2, THEN conjunct2, rule_format, of exEntries "[]"]
      zero exReader[of exScan] noret by (simp add: exEntries_def)
  have "concat (map (\<lambda>e. emitted (scanEntry exCommon exDelivered exScan e)) exEntries)
       = [Some (exZItem keyB [2] 2 score_1_0 5), Some (exZItem keyC [3] 3 score_2_0 6),
              Some (exZItem keyA [1] 1 score_3_0 4)]"
    by (simp add: exEntries_def exOutcomes emitted_def)
  with a b c two zero exTwo_loop exReader[of exTwo] exReader[of exScan] split show ?thesis
    by simp
qed

section \<open>ZScan: where the source departs from the specification\<close>

text \<open>
  Claim C1 asks for ascending score order unless the scan is reversed. The source hands
  \<open>options.Reverse\<close> to the reader as \<open>AscOrder\<close>: a scan that is not reversed asks
  the reader for descending order. On the set with the scores 3.0, 1.0 and 2.0 behind
  the ordered reader, the scan that is not reversed returns 3.0, 2.0, 1.0 and the
  reversed scan returns 1.0, 2.0, 3.0.
\<close>

theorem ZScan_reader_direction:
  "AscOrder (readerSpec cm options) = zscan_Reverse options
   \<and> zscan_Reverse exScan = False
   \<and> scores (ZScan exCommon exOrdered exScan)
       = Inr [Some score_3_0, Some score_2_0, Some score_1_0]
   \<and> scores (ZScan exCommon exOrdered (exScan\<lparr>zscan_Reverse := True\<rparr>))
       = Inr [Some score_1_0, Some score_2_0, Some score_3_0]"
  by (simp add: ex_defs collaborator_defs scan_defs)

text \<open>
  Claim C2 asks that an entry whose key does not start with the separator be skipped.
  The source does not skip it: with the cursor at the plain key \<open>a\<close>, the scan without
  bounds appends a nil item to the result, and the scan with a minimum or a maximum
  evaluates the guard on the nil item and panics.
\<close>

theorem ZScan_key_without_separator:
  "\<not> HasPrefix keyA (SortedSetSeparator exCommon)
   \<and> ZScan exCommon exPlain (exScan\<lparr>zscan_Offset := Some keyA\<rparr>) = Inr [None]
   \<and> ZScan exCommon exPlain (exScan\<lparr>zscan_Offset := Some keyA, zscan_Min := Some score_1_0\<rparr>)
       = Inl PanicNilDereference
   \<and> ZScan exCommon exPlain (exScan\<lparr>zscan_Offset := Some keyA, zscan_Max := Some score_3_0\<rparr>)
       = Inl PanicNilDereference"
  by (simp add: ex_defs collaborator_defs scan_defs)

text \<open>
  Claim C3 asks that a hash mismatch of \<open>ReadValueAt\<close> be surfaced. The source never
  looks at the error of \<open>ReadValueAt\<close>: a scan gives the same result as on the store
  whose \<open>ReadValueAt\<close> never fails. On the store whose reference payload for \<open>b\<close>
  was overwritten, the read reports corrupted data and the scan succeeds, returning the
  item of \<open>c\<close> under the entry of \<open>b\<close>.
\<close>

theorem ZScan_ReadValueAt_error_unchecked:
  "ZScan cm (ignoreReadError d) options = ZScan cm d options
   \<and> ReadValueAt (st exCorrupt) (replicate 10 0) 10 (sum32 (wrapReference keyB None))
       = (wrapReference keyC None, Some (StoreErr ''corrupted data''))
   \<and> ZScan exCommon exCorrupt exScan
       = Inr [Some \<lparr>zitem_Item = \<lparr>item_Key = keyC, item_Value = [3], item_Index = 3\<rparr>,
                    zitem_Score = score_1_0,
                    zitem_CurrentOffset = buildKey exSep keyB exSet score_1_0 None,
                    zitem_Index = 5\<rparr>]"
proof (intro conjI)
  have "openReader cm (ignoreReadError d) options = openReader cm d options"
    by (simp add: openReader_def ignoreReadError_def)
  then show "ZScan cm (ignoreReadError d) options = ZScan cm d options"
    by (simp add: ZScan_def scanLoop_ignoreReadError split: sum.splits)
  show "ReadValueAt (st exCorrupt) (replicate 10 0) 10 (sum32 (wrapReference keyB None))
       = (wrapReference keyC None, Some (StoreErr ''corrupted data''))"
    by (simp add: ex_defs collaborator_defs)
  show "ZScan exCommon exCorrupt exScan
       = Inr [Some \<lparr>zitem_Item = \<lparr>item_Key = keyC, item_Value = [3], item_Index = 3\<rparr>,
                    zitem_Score = score_1_0,
                    zitem_CurrentOffset = buildKey exSep keyB exSet score_1_0 None,
                    zitem_Index = 5\<rparr>]"
    by (simp add: ex_defs collaborator_defs scan_defs)
qed

end
